theory Spec2Isabelle
  imports Complex_Main
begin

section \<open>Koppen-Geiger climate classification: the classifier\<close>

text \<open>
  The development embeds \<^verbatim>\<open>koppen_classification/classifier.py\<close>: the class
  \<^verbatim>\<open>KoppenClassification\<close>, whose constructor derives the climate statistics of
  twelve monthly precipitation and temperature values, computes the aridity threshold
  and classifies.

  Numbers. The arrays are numpy arrays of numbers; the model reads every value as a
  \<^typ>\<open>real\<close> and every operation as exact real arithmetic, so the constant
  \<^verbatim>\<open>0.7\<close> is the rational 7/10. Rounding of floating-point numbers and the
  special values (NaN, infinities) are outside the model.
\<close>

subsection \<open>Errors and the numpy operations used\<close>

text \<open>
  \<^verbatim>\<open>ValueError\<close> is what the constructor raises for a wrong length (the
  specification calls it InvalidInput) and what numpy's \<^verbatim>\<open>min\<close> and \<^verbatim>\<open>max\<close>
  raise on an empty array; \<^verbatim>\<open>IndexError\<close> is what indexing with a list of
  positions raises when a position is out of range.
\<close>

datatype error = ValueError | IndexError

definition bind_err :: "error + 'a \<Rightarrow> ('a \<Rightarrow> error + 'b) \<Rightarrow> error + 'b" where
  "bind_err m f = (case m of Inl e \<Rightarrow> Inl e | Inr v \<Rightarrow> f v)"

text \<open>\<^verbatim>\<open>a.sum()\<close>\<close>

definition np_sum :: "real list \<Rightarrow> real" where
  "np_sum a = sum_list a"

text \<open>
  \<^verbatim>\<open>a.mean()\<close>. The constructor calls it on an array of twelve values only; on an
  empty array numpy gives NaN, which the model does not represent.
\<close>

definition np_mean :: "real list \<Rightarrow> real" where
  "np_mean a = sum_list a / real (length a)"

text \<open>\<^verbatim>\<open>a.min()\<close> and \<^verbatim>\<open>a.max()\<close>\<close>

fun np_min :: "real list \<Rightarrow> error + real" where
  "np_min [] = Inl ValueError"
| "np_min (x # xs) = Inr (fold min xs x)"

fun np_max :: "real list \<Rightarrow> error + real" where
  "np_max [] = Inl ValueError"
| "np_max (x # xs) = Inr (fold max xs x)"

text \<open>\<^verbatim>\<open>a[idx]\<close> for a list \<^verbatim>\<open>idx\<close> of non-negative positions\<close>

definition np_take :: "real list \<Rightarrow> nat list \<Rightarrow> error + real list" where
  "np_take a idx =
     (if list_all (\<lambda>i. i < length a) idx then Inr (map (\<lambda>i. a ! i) idx)
      else Inl IndexError)"

text \<open>\<^verbatim>\<open>(a > 10).astype(int).sum()\<close>\<close>

definition count_gt10 :: "real list \<Rightarrow> int" where
  "count_gt10 a = sum_list (map (\<lambda>x. if x > 10 then 1 else 0) a)"

subsection \<open>The object\<close>

text \<open>
  The keys of the dictionary \<^verbatim>\<open>mon_ind\<close> are the two literals
  \<^verbatim>\<open>'summer'\<close> and \<^verbatim>\<open>'winter'\<close>.
\<close>

datatype season = summer | winter

text \<open>
  The attributes are assigned in three stages: those that
  \<^verbatim>\<open>calculate_precip_threshold\<close> may read, those that \<^verbatim>\<open>classify\<close> may
  read in addition, and the class computed last.
\<close>

record climate =
  precip :: "real list"
  temp :: "real list"
  south :: bool
  temp_mean :: real
  prcp_sum :: real
  prcp_min :: real
  temp_min :: real
  temp_max :: real
  nu_mon_gt10deg :: int
  mon_ind :: "season \<Rightarrow> nat list"
  prcp_summer :: "real list"
  prcp_winter :: "real list"

record stats = climate +
  prcp_threshold :: real
  prcp_summer_min :: real
  prcp_summer_max :: real
  prcp_winter_min :: real
  prcp_winter_max :: real

record koppen = stats +
  koppen_class :: string

definition mon_sw :: "nat list list" where
  "mon_sw = [[3, 4, 5, 6, 7, 8], [0, 1, 2, 9, 10, 11]]"

subsection \<open>The aridity threshold\<close>

definition calculate_precip_threshold :: "'a climate_scheme \<Rightarrow> real" where
  "calculate_precip_threshold self =
     (if np_sum (prcp_winter self) > 0.7 * prcp_sum self then 20 * temp_mean self
      else if np_sum (prcp_summer self) > 0.7 * prcp_sum self then 20 * temp_mean self + 280
      else 20 * temp_mean self + 140)"

subsection \<open>The decision tree\<close>

definition classify :: "'a stats_scheme \<Rightarrow> string" where
  "classify self =
     (if prcp_sum self < prcp_threshold self then
        ''B''
        @ (if prcp_sum self < prcp_threshold self / 2 then ''W'' else ''S'')
        @ (if temp_mean self \<ge> 18 then ''h'' else ''k'')
      else if temp_min self \<ge> 18 then
        ''A''
        @ (if prcp_min self \<ge> 60 then ''f''
           else (if prcp_min self \<ge> 100 - prcp_sum self / 25 then ''m'' else ''w''))
      else if temp_max self > 10 \<and> 0 < temp_min self \<and> temp_min self < 18 then
        ''C''
        @ (if prcp_summer_min self < 40 \<and> prcp_summer_min self < prcp_winter_max self / 3
           then ''s''
           else if prcp_winter_min self < prcp_summer_max self / 10 then ''w''
           else ''f'')
        @ (if temp_max self \<ge> 22 then ''a''
           else if nu_mon_gt10deg self \<ge> 4 then ''b''
           else ''c'')
      else if temp_max self > 10 \<and> temp_min self \<le> 0 then
        ''D''
        @ (if prcp_summer_min self < 40 \<and> prcp_summer_min self < prcp_winter_max self / 3
           then ''s''
           else if prcp_winter_min self < prcp_summer_max self / 10 then ''w''
           else ''f'')
        @ (if temp_max self \<ge> 22 then ''a''
           else if nu_mon_gt10deg self \<ge> 4 then ''b''
           else if temp_min self < - 38 then ''d''
           else ''c'')
      else if temp_max self \<le> 10 then
        ''E'' @ (if temp_max self > 0 then ''T'' else ''F'')
      else ''Unknown'')"

subsection \<open>The constructor\<close>

text \<open>
  \<^verbatim>\<open>KoppenClassification(precip, temp, south)\<close>: the length check, then the
  attributes in the order of the source. Each numpy call that can raise is a
  \<^const>\<open>bind_err\<close>.
\<close>

definition KoppenClassification :: "real list \<Rightarrow> real list \<Rightarrow> bool \<Rightarrow> error + koppen" where
  "KoppenClassification p t s =
     (if length p \<noteq> 12 \<or> length t \<noteq> 12 then Inl ValueError
      else
        bind_err (np_min p) (\<lambda>pmin.
        bind_err (np_min t) (\<lambda>tmin.
        bind_err (np_max t) (\<lambda>tmax.
        let mi = (if s then (\<lambda>k. case k of summer \<Rightarrow> mon_sw ! 1 | winter \<Rightarrow> mon_sw ! 0)
                  else (\<lambda>k. case k of summer \<Rightarrow> mon_sw ! 0 | winter \<Rightarrow> mon_sw ! 1))
        in
        bind_err (np_take p (mi summer)) (\<lambda>ps.
        bind_err (np_take p (mi winter)) (\<lambda>pw.
        let self0 = \<lparr> precip = p, temp = t, south = s,
                      temp_mean = np_mean t, prcp_sum = np_sum p, prcp_min = pmin,
                      temp_min = tmin, temp_max = tmax, nu_mon_gt10deg = count_gt10 t,
                      mon_ind = mi, prcp_summer = ps, prcp_winter = pw \<rparr>;
            thr = calculate_precip_threshold self0
        in
        bind_err (np_min ps) (\<lambda>psmin.
        bind_err (np_max ps) (\<lambda>psmax.
        bind_err (np_min pw) (\<lambda>pwmin.
        bind_err (np_max pw) (\<lambda>pwmax.
        let self1 = climate.extend self0
                      (stats.fields thr psmin psmax pwmin pwmax)
        in Inr (stats.extend self1 (koppen.fields (classify self1)))))))))))))"

text \<open>\<^verbatim>\<open>get_classification(writeout=False)\<close>\<close>

definition get_classification :: "koppen \<Rightarrow> string" where
  "get_classification self = koppen_class self"

text \<open>
  Construction followed by \<^verbatim>\<open>get_classification()\<close>, the way the test script
  obtains a code.
\<close>

definition koppen_code :: "real list \<Rightarrow> real list \<Rightarrow> bool \<Rightarrow> error + string" where
  "koppen_code p t s = bind_err (KoppenClassification p t s) (\<lambda>k. Inr (get_classification k))"

subsection \<open>The rules as the specification words them\<close>

text \<open>
  The definitions of this subsection follow the specification, not the source; the
  theorems below compare them with the embedded code.
\<close>




subsection \<open>Auxiliary: the season table in closed form\<close>

text \<open>
  What the dictionary \<^verbatim>\<open>mon_ind\<close> of the constructor holds, as a function of the
  hemisphere flag. It is not part of the source; the lemma \<open>mon_ind_closed\<close> below proves it
  equal to the source's expression.
\<close>

definition season_idx :: "bool \<Rightarrow> season \<Rightarrow> nat list" where
  "season_idx s k = (if s = (k = summer) then [0, 1, 2, 9, 10, 11] else [3, 4, 5, 6, 7, 8])"

section \<open>Properties of the embedding\<close>

subsection \<open>The numpy operations on the arrays the constructor builds\<close>

lemmas obj_defs = climate.extend_def stats.extend_def stats.fields_def koppen.fields_def

lemma replicate_12: "replicate 12 x = [x, x, x, x, x, x, x, x, x, x, x, x]"
  by (simp add: numeral_eq_Suc)

lemma np_min_Min: "a \<noteq> [] \<Longrightarrow> np_min a = Inr (Min (set a))"
  using Min.set_eq_fold [of "hd a" "tl a"] by (cases a) simp_all

lemma np_max_Max: "a \<noteq> [] \<Longrightarrow> np_max a = Inr (Max (set a))"
  using Max.set_eq_fold [of "hd a" "tl a"] by (cases a) simp_all

lemma np_take_Inr:
  "list_all (\<lambda>i. i < length a) idx \<Longrightarrow> np_take a idx = Inr (map (\<lambda>i. a ! i) idx)"
  by (simp add: np_take_def)

lemma season_idx_in_range: "length p = 12 \<Longrightarrow> list_all (\<lambda>i. i < length p) (season_idx s k)"
  by (simp add: season_idx_def)

lemma season_idx_nonempty: "map f (season_idx s k) \<noteq> []"
  by (simp add: season_idx_def)

lemma mon_ind_closed:
  "(if s then (\<lambda>k. case k of summer \<Rightarrow> mon_sw ! 1 | winter \<Rightarrow> mon_sw ! 0)
    else (\<lambda>k. case k of summer \<Rightarrow> mon_sw ! 0 | winter \<Rightarrow> mon_sw ! 1)) = season_idx s"
  by (auto simp: fun_eq_iff season_idx_def mon_sw_def split: season.splits)


subsection \<open>The two methods read only the attributes of their stage\<close>

lemma threshold_climate_extend:
  "calculate_precip_threshold (climate.extend r m) = calculate_precip_threshold r"
  by (simp add: calculate_precip_threshold_def climate.extend_def)

lemma threshold_stats_extend:
  "calculate_precip_threshold (stats.extend r m) = calculate_precip_threshold r"
  by (simp add: calculate_precip_threshold_def stats.extend_def)

lemma classify_stats_extend: "classify (stats.extend r m) = classify r"
  by (simp add: classify_def stats.extend_def)

subsection \<open>The constructor on arrays of twelve values\<close>

lemma KC_12:
  assumes "length p = 12" "length t = 12"
  shows "KoppenClassification p t s =
    Inr (let self0 = \<lparr> precip = p, temp = t, south = s,
                      temp_mean = np_mean t, prcp_sum = np_sum p, prcp_min = Min (set p),
                      temp_min = Min (set t), temp_max = Max (set t),
                      nu_mon_gt10deg = count_gt10 t, mon_ind = season_idx s,
                      prcp_summer = map (\<lambda>i. p ! i) (season_idx s summer),
                      prcp_winter = map (\<lambda>i. p ! i) (season_idx s winter) \<rparr>;
             self1 = climate.extend self0
                      (stats.fields (calculate_precip_threshold self0)
                         (Min (set (prcp_summer self0))) (Max (set (prcp_summer self0)))
                         (Min (set (prcp_winter self0))) (Max (set (prcp_winter self0))))
        in stats.extend self1 (koppen.fields (classify self1)))"
proof -
  from assms have ne: "p \<noteq> []" "t \<noteq> []" by auto
  show ?thesis
    unfolding KoppenClassification_def mon_ind_closed
    by (simp add: assms bind_err_def np_min_Min [OF ne(1)] np_min_Min [OF ne(2)]
        np_max_Max [OF ne(2)] np_take_Inr [OF season_idx_in_range [OF assms(1)]]
        np_min_Min [OF season_idx_nonempty] np_max_Max [OF season_idx_nonempty] Let_def)
qed

lemma KC_Inr:
  assumes "length p = 12" "length t = 12"
  shows "\<exists>k. KoppenClassification p t s = Inr k"
  using KC_12 [OF assms] by simp

lemma KC_fields:
  assumes "KoppenClassification p t s = Inr k"
  shows "length p = 12" "length t = 12" "precip k = p" "temp k = t" "south k = s"
    "temp_mean k = np_mean t" "prcp_sum k = np_sum p" "prcp_min k = Min (set p)"
    "temp_min k = Min (set t)" "temp_max k = Max (set t)" "nu_mon_gt10deg k = count_gt10 t"
    "mon_ind k = season_idx s"
    "prcp_summer k = map (\<lambda>i. p ! i) (season_idx s summer)"
    "prcp_winter k = map (\<lambda>i. p ! i) (season_idx s winter)"
    "prcp_threshold k = calculate_precip_threshold k"
    "prcp_summer_min k = Min (set (prcp_summer k))"
    "prcp_summer_max k = Max (set (prcp_summer k))"
    "prcp_winter_min k = Min (set (prcp_winter k))"
    "prcp_winter_max k = Max (set (prcp_winter k))"
    "koppen_class k = classify k"
proof -
  from assms show l: "length p = 12" "length t = 12"
    by (auto simp: KoppenClassification_def split: if_splits)
  from assms KC_12 [OF l, of s]
  have k: "k = (let self0 = \<lparr> precip = p, temp = t, south = s,
                      temp_mean = np_mean t, prcp_sum = np_sum p, prcp_min = Min (set p),
                      temp_min = Min (set t), temp_max = Max (set t),
                      nu_mon_gt10deg = count_gt10 t, mon_ind = season_idx s,
                      prcp_summer = map (\<lambda>i. p ! i) (season_idx s summer),
                      prcp_winter = map (\<lambda>i. p ! i) (season_idx s winter) \<rparr>;
             self1 = climate.extend self0
                      (stats.fields (calculate_precip_threshold self0)
                         (Min (set (prcp_summer self0))) (Max (set (prcp_summer self0)))
                         (Min (set (prcp_winter self0))) (Max (set (prcp_winter self0))))
        in stats.extend self1 (koppen.fields (classify self1)))"
    by simp
  show "precip k = p" "temp k = t" "south k = s"
    "temp_mean k = np_mean t" "prcp_sum k = np_sum p" "prcp_min k = Min (set p)"
    "temp_min k = Min (set t)" "temp_max k = Max (set t)" "nu_mon_gt10deg k = count_gt10 t"
    "mon_ind k = season_idx s"
    "prcp_summer k = map (\<lambda>i. p ! i) (season_idx s summer)"
    "prcp_winter k = map (\<lambda>i. p ! i) (season_idx s winter)"
    "prcp_summer_min k = Min (set (prcp_summer k))"
    "prcp_summer_max k = Max (set (prcp_summer k))"
    "prcp_winter_min k = Min (set (prcp_winter k))"
    "prcp_winter_max k = Max (set (prcp_winter k))"
    unfolding k by (simp_all add: Let_def obj_defs)
  show "prcp_threshold k = calculate_precip_threshold k"
    unfolding k Let_def threshold_stats_extend threshold_climate_extend
    by (simp add: obj_defs)
  show "koppen_class k = classify k"
    unfolding k Let_def classify_stats_extend
    by (simp add: stats.extend_def koppen.fields_def)
qed

lemma koppen_code_Inr:
  "KoppenClassification p t s = Inr k \<Longrightarrow> koppen_code p t s = Inr (koppen_class k)"
  by (simp add: koppen_code_def bind_err_def get_classification_def)

lemmas eval_defs = koppen_code_def KoppenClassification_def bind_err_def np_take_def mon_sw_def
  obj_defs calculate_precip_threshold_def classify_def np_sum_def np_mean_def count_gt10_def
  get_classification_def Let_def

subsection \<open>The branches of the decision tree\<close>

lemma classify_not_Unknown: "classify self \<noteq> ''Unknown''"
  by (simp add: classify_def)

lemma classify_B:
  assumes "prcp_sum self < prcp_threshold self"
  shows "classify self = [CHR ''B'',
           if prcp_sum self < prcp_threshold self / 2 then CHR ''W'' else CHR ''S'',
           if temp_mean self \<ge> 18 then CHR ''h'' else CHR ''k'']"
  using assms by (simp add: classify_def)


lemma classify_E:
  assumes "\<not> prcp_sum self < prcp_threshold self" "temp_min self < 18" "temp_max self \<le> 0"
  shows "classify self = ''EF''"
  using assms by (simp add: classify_def)

lemma temp_minus_10:
  "np_mean (replicate 12 (- 10)) = - 10" "Min (set (replicate 12 (- 10 :: real))) = - 10"
  "Max (set (replicate 12 (- 10 :: real))) = - 10"
  by (simp_all add: np_mean_def sum_list_replicate)

section \<open>The claims\<close>

text \<open>
  Claim C1. For every record of twelve monthly values whose derived statistics satisfy
  both the condition of Group B (the annual precipitation is below the aridity
  threshold) and the condition of Group A (the coldest month is at 18 or above), the
  code starts with the letter B and not with the letter A: aridity is tested first.
\<close>

theorem C1_arid_before_tropical:
  assumes "KoppenClassification p t s = Inr k"
    and "prcp_sum k < prcp_threshold k" and "temp_min k \<ge> 18"
  shows "take 1 (koppen_class k) = ''B'' \<and> take 1 (koppen_class k) \<noteq> ''A''
         \<and> koppen_code p t s = Inr (koppen_class k)"
  using classify_B [OF assms(2)] koppen_code_Inr [OF assms(1)]
  unfolding KC_fields(20) [OF assms(1)] by simp

theorem C1_arid_before_tropical_witness:
  "\<exists>k. KoppenClassification [5, 5, 5, 5, 5, 5, 5, 5, 5, 5, 5, 5]
          [25, 25, 25, 25, 25, 25, 25, 25, 25, 25, 25, 25] False = Inr k
       \<and> prcp_sum k < prcp_threshold k \<and> temp_min k \<ge> 18
       \<and> take 1 (koppen_class k) = ''B'' \<and> take 1 (koppen_class k) \<noteq> ''A''"
proof -
  obtain k where k: "KoppenClassification [5, 5, 5, 5, 5, 5, 5, 5, 5, 5, 5, 5]
          [25, 25, 25, 25, 25, 25, 25, 25, 25, 25, 25, 25] False = Inr k"
    using KC_Inr [of "[5, 5, 5, 5, 5, 5, 5, 5, 5, 5, 5, 5]"
          "[25, 25, 25, 25, 25, 25, 25, 25, 25, 25, 25, 25]" False] by auto
  note f = KC_fields [OF k]
  have a: "prcp_sum k < prcp_threshold k"
    unfolding f(15) calculate_precip_threshold_def f(6,7,13,14)
    by (simp add: np_sum_def np_mean_def season_idx_def)
  have b: "temp_min k \<ge> 18"
    unfolding f(9) by simp
  from C1_arid_before_tropical [OF k a b] k a b show ?thesis by blast
qed

text \<open>
  Claim C2, as stated: with a temperature of -10 in every month, every precipitation
  array of twelve values is classified EF. This fails: with all the precipitation in the
  six summer months and an annual sum of 60, the threshold is 20 * (-10) + 280 = 80, the
  sum is below it, and Group B, which is tested first, gives BSk.
\<close>

theorem C2_polar_counterexample:
  "length [0, 0, 0, 10, 10, 10, 10, 10, 10, 0, 0, 0 :: real] = 12
   \<and> koppen_code [0, 0, 0, 10, 10, 10, 10, 10, 10, 0, 0, 0] (replicate 12 (- 10)) False
       = Inr ''BSk''
   \<and> koppen_code [0, 0, 0, 10, 10, 10, 10, 10, 10, 0, 0, 0] (replicate 12 (- 10)) False
       \<noteq> Inr ''EF''"
  by (simp add: replicate_12 eval_defs)

text \<open>
  Claim C2, amended: with a temperature of -10 in every month and a precipitation array
  of twelve values, the code is EF exactly when the annual precipitation is not below
  the aridity threshold; when it is below, Group B takes priority and the code starts
  with B.
\<close>

theorem C2_polar_unless_arid:
  assumes "KoppenClassification p (replicate 12 (- 10)) s = Inr k"
  shows "(koppen_code p (replicate 12 (- 10)) s = Inr ''EF'')
           = (\<not> prcp_sum k < prcp_threshold k)
       \<and> (koppen_code p (replicate 12 (- 10)) s = Inr ''EF''
            \<or> (\<exists>c. koppen_code p (replicate 12 (- 10)) s = Inr c \<and> take 1 c = ''B''))"
proof (cases "prcp_sum k < prcp_threshold k")
  case True
  from classify_B [OF True] have "take 1 (classify k) = ''B''" by simp
  then have "take 1 (koppen_class k) = ''B''"
    unfolding KC_fields(20) [OF assms] .
  with True koppen_code_Inr [OF assms] show ?thesis by auto
next
  case False
  note f = KC_fields [OF assms]
  have "temp_min k < 18" "temp_max k \<le> 0"
    unfolding f(9,10) by (simp_all add: temp_minus_10)
  with False have "classify k = ''EF''"
    by (rule classify_E)
  with False koppen_code_Inr [OF assms] f(20) show ?thesis by simp
qed

theorem C2_polar_unless_arid_witness:
  "\<exists>k. KoppenClassification [5, 5, 5, 5, 5, 5, 5, 5, 5, 5, 5, 5] (replicate 12 (- 10)) False
         = Inr k
     \<and> \<not> prcp_sum k < prcp_threshold k
     \<and> koppen_code [5, 5, 5, 5, 5, 5, 5, 5, 5, 5, 5, 5] (replicate 12 (- 10)) False
         = Inr ''EF''"
proof -
  obtain k where k: "KoppenClassification [5, 5, 5, 5, 5, 5, 5, 5, 5, 5, 5, 5]
      (replicate 12 (- 10)) False = Inr k"
    using KC_Inr [of "[5, 5, 5, 5, 5, 5, 5, 5, 5, 5, 5, 5]" "replicate 12 (- 10)" False]
    by auto
  note f = KC_fields [OF k]
  have a: "\<not> prcp_sum k < prcp_threshold k"
    unfolding f(15) calculate_precip_threshold_def f(6,7,13,14)
    by (simp add: np_sum_def temp_minus_10 season_idx_def)
  from C2_polar_unless_arid [OF k] k a show ?thesis by blast
qed

text \<open>
  Claim C3. For every input of twelve real precipitation values and twelve real
  temperature values the classification returns a code, and the code is never
  Unknown: over the reals the conditions of the groups B, A, C, D and E leave no gap.
\<close>

theorem C3_never_Unknown:
  assumes "length p = 12" and "length t = 12"
  shows "\<exists>c. koppen_code p t s = Inr c \<and> c \<noteq> ''Unknown''"
proof -
  from assms obtain k where k: "KoppenClassification p t s = Inr k"
    using KC_Inr by blast
  have "koppen_class k \<noteq> ''Unknown''"
    unfolding KC_fields(20) [OF k] by (rule classify_not_Unknown)
  with koppen_code_Inr [OF k] show ?thesis by simp
qed

theorem C3_never_Unknown_witness:
  "\<exists>c. koppen_code [30, 40, 20, 60, 80, 100, 150, 140, 90, 70, 50, 40]
          [10, 12, 15, 18, 20, 25, 30, 28, 22, 15, 12, 8] False = Inr c \<and> c \<noteq> ''Unknown''"
  using C3_never_Unknown [of "[30, 40, 20, 60, 80, 100, 150, 140, 90, 70, 50, 40]"
          "[10, 12, 15, 18, 20, 25, 30, 28, 22, 15, 12, 8]" False]
  by simp

text \<open>
  Claim C5. When the precipitation or the temperature sequence does not hold exactly
  twelve values, construction fails with the error the specification calls InvalidInput
  (the source's ValueError) and no code is returned; when both hold twelve values,
  nothing else is checked and no error is raised: an object and a code are returned.
\<close>

theorem C5_length_check:
  "(length p \<noteq> 12 \<or> length t \<noteq> 12 \<longrightarrow>
      KoppenClassification p t s = Inl ValueError \<and> koppen_code p t s = Inl ValueError)
   \<and> (length p = 12 \<and> length t = 12 \<longrightarrow>
      (\<exists>k. KoppenClassification p t s = Inr k) \<and> (\<exists>c. koppen_code p t s = Inr c))"
proof (intro conjI impI)
  assume "length p \<noteq> 12 \<or> length t \<noteq> 12"
  then show "KoppenClassification p t s = Inl ValueError"
    by (auto simp: KoppenClassification_def)
  then show "koppen_code p t s = Inl ValueError"
    by (simp add: koppen_code_def bind_err_def)
next
  assume "length p = 12 \<and> length t = 12"
  then obtain k where k: "KoppenClassification p t s = Inr k"
    using KC_Inr by blast
  then show "\<exists>k. KoppenClassification p t s = Inr k" by blast
  from koppen_code_Inr [OF k] show "\<exists>c. koppen_code p t s = Inr c" by blast
qed

theorem C5_length_check_witness:
  "length ([] :: real list) \<noteq> 12 \<and> koppen_code [] [] False = Inl ValueError
   \<and> length [1, 2, 3, 4, 5, 6, 7, 8, 9, 10, 11 :: real] \<noteq> 12
   \<and> koppen_code [5, 5, 5, 5, 5, 5, 5, 5, 5, 5, 5, 5]
        [1, 2, 3, 4, 5, 6, 7, 8, 9, 10, 11] True = Inl ValueError
   \<and> length [5, 5, 5, 5, 5, 5, 5, 5, 5, 5, 5, 5 :: real] = 12
   \<and> (\<exists>c. koppen_code [5, 5, 5, 5, 5, 5, 5, 5, 5, 5, 5, 5]
             [5, 5, 5, 5, 5, 5, 5, 5, 5, 5, 5, 5] False = Inr c)"
  using C5_length_check [of "[]" "[]" False]
    C5_length_check [of "[5, 5, 5, 5, 5, 5, 5, 5, 5, 5, 5, 5]"
      "[1, 2, 3, 4, 5, 6, 7, 8, 9, 10, 11]" True]
    C5_length_check [of "[5, 5, 5, 5, 5, 5, 5, 5, 5, 5, 5, 5]"
      "[5, 5, 5, 5, 5, 5, 5, 5, 5, 5, 5, 5]" False]
  by simp



text \<open>
  Claim C8. For every record whose annual precipitation is below the threshold the code
  has exactly three characters: B, then W when the annual precipitation is below half
  the threshold and S otherwise, then h when the mean temperature is at least 18 and k
  otherwise. For a precipitation of 5 and a temperature of 5 in every month, northern
  hemisphere, the threshold is 20 * 5 + 140 = 240, the annual precipitation is 60, the
  mean temperature is 5 and the code is BWk.
\<close>

theorem C8_group_B_code:
  "(KoppenClassification p t s = Inr k \<and> prcp_sum k < prcp_threshold k \<longrightarrow>
      length (koppen_class k) = 3
      \<and> koppen_class k =
          [CHR ''B'',
           if prcp_sum k < prcp_threshold k / 2 then CHR ''W'' else CHR ''S'',
           if temp_mean k \<ge> 18 then CHR ''h'' else CHR ''k'']
      \<and> koppen_code p t s = Inr (koppen_class k))
   \<and> (\<exists>k. KoppenClassification (replicate 12 5) (replicate 12 5) False = Inr k
         \<and> prcp_threshold k = 20 * 5 + 140 \<and> prcp_sum k = 60 \<and> temp_mean k = 5
         \<and> koppen_class k = ''BWk'')
   \<and> koppen_code (replicate 12 5) (replicate 12 5) False = Inr ''BWk''"
proof (intro conjI impI)
  assume a: "KoppenClassification p t s = Inr k \<and> prcp_sum k < prcp_threshold k"
  then have k: "KoppenClassification p t s = Inr k" and b: "prcp_sum k < prcp_threshold k"
    by simp_all
  show c: "koppen_class k =
          [CHR ''B'',
           if prcp_sum k < prcp_threshold k / 2 then CHR ''W'' else CHR ''S'',
           if temp_mean k \<ge> 18 then CHR ''h'' else CHR ''k'']"
    unfolding KC_fields(20) [OF k] by (rule classify_B [OF b])
  then show "length (koppen_class k) = 3" by simp
  show "koppen_code p t s = Inr (koppen_class k)" by (rule koppen_code_Inr [OF k])
next
  obtain k where k: "KoppenClassification (replicate 12 5) (replicate 12 5) False = Inr k"
    using KC_Inr [of "replicate 12 5" "replicate 12 5" False] by auto
  note f = KC_fields [OF k]
  have m: "temp_mean k = 5" "prcp_sum k = 60"
    unfolding f(6,7) by (simp_all add: np_mean_def np_sum_def sum_list_replicate)
  have thr: "prcp_threshold k = 240"
    unfolding f(15) calculate_precip_threshold_def m f(13,14)
    by (simp add: np_sum_def season_idx_def)
  have "classify k = ''BWk''"
    using classify_B [of k] by (simp add: m thr)
  then have c: "koppen_class k = ''BWk''" by (simp add: f(20))
  with k m thr show "\<exists>k. KoppenClassification (replicate 12 5) (replicate 12 5) False = Inr k
         \<and> prcp_threshold k = 20 * 5 + 140 \<and> prcp_sum k = 60 \<and> temp_mean k = 5
         \<and> koppen_class k = ''BWk''" by auto
  from koppen_code_Inr [OF k] c
  show "koppen_code (replicate 12 5) (replicate 12 5) False = Inr ''BWk''" by simp
qed

theorem C8_group_B_code_witness:
  "\<exists>k. KoppenClassification [0, 0, 0, 10, 10, 10, 10, 10, 10, 0, 0, 0]
          [20, 20, 20, 20, 20, 20, 20, 20, 20, 20, 20, 20] True = Inr k
     \<and> prcp_sum k < prcp_threshold k \<and> koppen_class k = ''BWh''"
proof -
  obtain k where k: "KoppenClassification [0, 0, 0, 10, 10, 10, 10, 10, 10, 0, 0, 0]
          [20, 20, 20, 20, 20, 20, 20, 20, 20, 20, 20, 20] True = Inr k"
    using KC_Inr [of "[0, 0, 0, 10, 10, 10, 10, 10, 10, 0, 0, 0]"
          "[20, 20, 20, 20, 20, 20, 20, 20, 20, 20, 20, 20]" True] by auto
  note f = KC_fields [OF k]
  have m: "temp_mean k = 20" "prcp_sum k = 60"
    unfolding f(6,7) by (simp_all add: np_mean_def np_sum_def)
  have thr: "prcp_threshold k = 400"
    unfolding f(15) calculate_precip_threshold_def m f(13,14)
    by (simp add: np_sum_def season_idx_def)
  have a: "prcp_sum k < prcp_threshold k" by (simp add: m thr)
  from C8_group_B_code [of "[0, 0, 0, 10, 10, 10, 10, 10, 10, 0, 0, 0]"
          "[20, 20, 20, 20, 20, 20, 20, 20, 20, 20, 20, 20]" True k] k a
  have "koppen_class k = ''BWh''" by (simp add: m thr)
  with k a show ?thesis by blast
qed

text \<open>
  Claim C9. Two records with the same precipitation array and the same hemisphere flag
  whose mean temperatures are ordered have their thresholds ordered the same way: a
  greater mean temperature never gives a smaller threshold.
\<close>

theorem C9_threshold_monotone:
  assumes "KoppenClassification p t1 s = Inr k1" and "KoppenClassification p t2 s = Inr k2"
    and "temp_mean k1 \<le> temp_mean k2"
  shows "prcp_threshold k1 \<le> prcp_threshold k2"
proof -
  note f1 = KC_fields [OF assms(1)] and f2 = KC_fields [OF assms(2)]
  have "prcp_sum k1 = prcp_sum k2" "prcp_summer k1 = prcp_summer k2"
    "prcp_winter k1 = prcp_winter k2"
    by (simp_all add: f1(7,13,14) f2(7,13,14))
  with assms(3) show ?thesis
    unfolding f1(15) f2(15) calculate_precip_threshold_def by simp
qed

theorem C9_threshold_monotone_witness:
  "\<exists>k1 k2. KoppenClassification [5, 5, 5, 5, 5, 5, 5, 5, 5, 5, 5, 5]
          [5, 5, 5, 5, 5, 5, 5, 5, 5, 5, 5, 5] False = Inr k1
     \<and> KoppenClassification [5, 5, 5, 5, 5, 5, 5, 5, 5, 5, 5, 5]
          [5, 5, 5, 5, 5, 5, 8, 8, 5, 5, 5, 5] False = Inr k2
     \<and> temp_mean k1 \<le> temp_mean k2 \<and> prcp_threshold k1 \<le> prcp_threshold k2"
proof -
  obtain k1 where k1: "KoppenClassification [5, 5, 5, 5, 5, 5, 5, 5, 5, 5, 5, 5]
          [5, 5, 5, 5, 5, 5, 5, 5, 5, 5, 5, 5] False = Inr k1"
    using KC_Inr [of "[5, 5, 5, 5, 5, 5, 5, 5, 5, 5, 5, 5]"
          "[5, 5, 5, 5, 5, 5, 5, 5, 5, 5, 5, 5]" False] by auto
  obtain k2 where k2: "KoppenClassification [5, 5, 5, 5, 5, 5, 5, 5, 5, 5, 5, 5]
          [5, 5, 5, 5, 5, 5, 8, 8, 5, 5, 5, 5] False = Inr k2"
    using KC_Inr [of "[5, 5, 5, 5, 5, 5, 5, 5, 5, 5, 5, 5]"
          "[5, 5, 5, 5, 5, 5, 8, 8, 5, 5, 5, 5]" False] by auto
  have m: "temp_mean k1 \<le> temp_mean k2"
    unfolding KC_fields(6) [OF k1] KC_fields(6) [OF k2] by (simp add: np_mean_def)
  from C9_threshold_monotone [OF k1 k2 m] k1 k2 m show ?thesis by blast
qed

end
